theory Spec2Isabelle
  imports Complex_Main "HOL-Library.Multiset"
begin

section \<open>Conventions of the embedding\<close>

text \<open>
  The repository has two reranking paths. The lexical path
  (\<^verbatim>\<open>server/Reranker_Lis.py\<close>, with the near-identical \<^verbatim>\<open>server/Reranker.py\<close>:
  same \<^verbatim>\<open>combiner\<close>, \<^verbatim>\<open>retrieve_with_bm25\<close>, \<^verbatim>\<open>compute_relevance_score\<close> and
  \<^verbatim>\<open>rerank_documents_with_feedback\<close>, differing in print statements and in whether
  the query is a parameter) works on pandas data frames; the semantic path
  (\<^verbatim>\<open>server/scored_cross_encoder_reranker.py\<close>) works on lists of documents. Line
  numbers are those of \<^verbatim>\<open>Reranker_Lis.py\<close> and of \<^verbatim>\<open>scored_cross_encoder_reranker.py\<close>.

  \<^item> A Python \<^verbatim>\<open>str\<close> is a \<^typ>\<open>string\<close>; a Python \<^verbatim>\<open>float\<close> is a \<^typ>\<open>real\<close>
    (rounding is not modelled; a pandas \<^verbatim>\<open>NaN\<close> is \<^term>\<open>None\<close>); a rating is an
    \<^typ>\<open>int\<close> (the 64-bit range of the rating column is not modelled).
  \<^item> A data frame is the list of its rows, in index order; a frame whose set of
    columns matters carries the list of its column names.
  \<^item> An exception is a value \<^term>\<open>Inl e\<close> of the result.
  \<^item> The libraries that the code calls with its data (\<^verbatim>\<open>rank_bm25\<close>, the cross-encoder)
    are parameters; the pandas calls are modelled by what they do to the rows.
\<close>

section \<open>Python string methods used by the lexical path\<close>

definition dquote :: char where
  "dquote = CHR 0x22"

text \<open>
  \<^verbatim>\<open>s.replace(old, new)\<close>: every non-overlapping occurrence of \<open>old\<close>, scanning from
  the left. The source calls it with the non-empty constants \<^verbatim>\<open>'['\<close>, \<^verbatim>\<open>']'\<close> and
  \<^verbatim>\<open>' " '\<close> only; an empty \<open>old\<close> (where Python inserts \<open>new\<close> around every
  character) is left unchanged here and never occurs.
\<close>

fun str_replace :: "string \<Rightarrow> string \<Rightarrow> string \<Rightarrow> string" where
  "str_replace old new [] = []"
| "str_replace old new (c # cs) =
     (if old \<noteq> [] \<and> take (length old) (c # cs) = old
      then new @ str_replace old new (drop (length old) (c # cs))
      else c # str_replace old new cs)"

text \<open>\<^verbatim>\<open>s.split(sep)\<close> for a one-character separator: never the empty list.\<close>

fun str_split :: "char \<Rightarrow> string \<Rightarrow> string list" where
  "str_split sep [] = [[]]"
| "str_split sep (c # cs) =
     (if c = sep then [] # str_split sep cs
      else (case str_split sep cs of
              [] \<Rightarrow> [[c]]
            | w # ws \<Rightarrow> (c # w) # ws))"

text \<open>\<^verbatim>\<open>s.strip(chars)\<close>: leading and trailing characters of \<open>chars\<close> removed.\<close>

definition str_strip :: "string \<Rightarrow> string \<Rightarrow> string" where
  "str_strip chars s =
     rev (dropWhile (\<lambda>c. c \<in> set chars) (rev (dropWhile (\<lambda>c. c \<in> set chars) s)))"

text \<open>
  \<^verbatim>\<open>s.split()\<close>: the maximal runs of non-whitespace characters. Among the 256
  characters of \<^typ>\<open>char\<close>, \<^verbatim>\<open>str.isspace\<close> holds of the codes below.
\<close>

definition isspace :: "char \<Rightarrow> bool" where
  "isspace c = (of_char c \<in> {9, 10, 11, 12, 13, 28, 29, 30, 31, 32, 133, 160 :: nat})"

fun split_ws_acc :: "string \<Rightarrow> string \<Rightarrow> string list" where
  "split_ws_acc w [] = (if w = [] then [] else [rev w])"
| "split_ws_acc w (c # cs) =
     (if isspace c
      then (if w = [] then split_ws_acc [] cs else rev w # split_ws_acc [] cs)
      else split_ws_acc (c # w) cs)"

definition str_split_ws :: "string \<Rightarrow> string list" where
  "str_split_ws s = split_ws_acc [] s"

section \<open>Lexical path: feedback aggregation (\<^verbatim>\<open>Reranker.combiner\<close>)\<close>

datatype error =
    UnboundLocalError string
  | KeyError string
  | ZeroDivisionError
  | CollaboratorError string

text \<open>A row of the \<^verbatim>\<open>Feedback\<close> table as \<^verbatim>\<open>get_feedback_reranker\<close> selects it.\<close>

record feedback_row =
  fb_query :: string
  fb_answer :: string
  fb_document_id :: string
  fb_rating :: int

text \<open>The rows \<open>(document_id, rating)\<close> of \<^verbatim>\<open>feedback_rating_df\<close>.\<close>

type_synonym rating_df = "(string \<times> int) list"

text \<open>
  Line 58: the serialized list of identifiers of one feedback row, split at commas after
  the brackets and the sequence space-quote-space have been deleted.
\<close>

definition parse_document_ids :: "string \<Rightarrow> string list" where
  "parse_document_ids s =
     str_split (CHR '','')
       (str_replace [CHR '' '', dquote, CHR '' ''] []
          (str_replace '']'' [] (str_replace ''['' [] s)))"

text \<open>
  Lines 66-77, the body of the inner loop for one trimmed identifier. The local
  \<^verbatim>\<open>feedback_rating_df\<close> does not exist before the first pass (\<^term>\<open>None\<close>); the first
  \<^verbatim>\<open>if\<close> then binds it to \<^verbatim>\<open>new_row\<close>. The second \<^verbatim>\<open>if\<close> is not an \<^verbatim>\<open>elif\<close>: it runs
  in the same pass and, the identifier now being in the frame, adds the rating to the
  row just created.
\<close>

definition add_rating :: "rating_df option \<Rightarrow> string \<Rightarrow> int \<Rightarrow> rating_df option" where
  "add_rating df document_id rating =
     (let new_row = (document_id, rating);
          feedback_rating_df = (case df of None \<Rightarrow> [new_row] | Some rows \<Rightarrow> rows)
      in if document_id \<in> fst ` set feedback_rating_df
         then Some (map (\<lambda>(d, r). if d = document_id then (d, r + rating) else (d, r))
                      feedback_rating_df)
         else Some (feedback_rating_df @ [new_row]))"

text \<open>Lines 62-77: the inner loop over the identifiers of one feedback row.\<close>

primrec ids_loop :: "int \<Rightarrow> string list \<Rightarrow> rating_df option \<Rightarrow> rating_df option" where
  "ids_loop rating [] df = df"
| "ids_loop rating (document_id # document_ids) df =
     ids_loop rating document_ids (add_rating df (str_strip [dquote] document_id) rating)"

text \<open>Lines 57-77: the outer loop over the feedback rows.\<close>

primrec feedback_loop :: "feedback_row list \<Rightarrow> rating_df option \<Rightarrow> rating_df option" where
  "feedback_loop [] df = df"
| "feedback_loop (row # feedback) df =
     feedback_loop feedback
       (ids_loop (fb_rating row) (parse_document_ids (fb_document_id row)) df)"

text \<open>
  \<^verbatim>\<open>pd.merge(left, right, how='left')\<close> on one key: the rows of \<open>left\<close> in their order,
  each paired with every row of \<open>right\<close> of the same key (in the order of \<open>right\<close>), or
  with \<^verbatim>\<open>NaN\<close> once when there is none.
\<close>

definition merge_left :: "'a list \<Rightarrow> ('a \<Rightarrow> 'k) \<Rightarrow> ('k \<times> 'v) list \<Rightarrow> ('a \<times> 'v option) list" where
  "merge_left left key right =
     concat (map (\<lambda>l. case filter (\<lambda>(k, v). k = key l) right of
                        [] \<Rightarrow> [(l, None)]
                      | ms \<Rightarrow> map (\<lambda>(k, v). (l, Some v)) ms) left)"

text \<open>
  \<^verbatim>\<open>combiner(feedback, documents_lst)\<close>: the rows \<open>(document_id, rating)\<close> of
  \<^verbatim>\<open>combined_df\<close>. With no feedback row the loop never binds \<^verbatim>\<open>feedback_rating_df\<close> and
  line 83 raises \<^verbatim>\<open>UnboundLocalError\<close>. Lines 86-88: a missing rating becomes 0. (The
  in-place \<^verbatim>\<open>fillna\<close> on the column updates the frame, as it does in pandas 1 and 2.)
\<close>

definition combiner :: "feedback_row list \<Rightarrow> string list \<Rightarrow> error + (string \<times> int) list" where
  "combiner feedback documents_lst =
     (case feedback_loop feedback None of
        None \<Rightarrow> Inl (UnboundLocalError ''feedback_rating_df'')
      | Some feedback_rating_df \<Rightarrow>
          Inr (map (\<lambda>(document_id, rating). (document_id, (case rating of None \<Rightarrow> 0 | Some r \<Rightarrow> r)))
                 (merge_left documents_lst (\<lambda>d. d) feedback_rating_df)))"

section \<open>Lexical path: BM25 scores, fusion and ranking\<close>

text \<open>
  The BM25 collaborator (\<^verbatim>\<open>rank_bm25.BM25Okapi\<close>, a library outside the repository) is a
  parameter: from the tokenized documents and the tokenized query it gives one score per
  document, or raises (its constructor divides by the number of documents).
\<close>

type_synonym bm25 = "string list list \<Rightarrow> string list \<Rightarrow> error + real list"

text \<open>
  The frame \<^verbatim>\<open>pd.DataFrame(retrieved_docs)\<close> built from a list of dictionaries: its
  columns are the keys of the dictionaries, so a frame built from no dictionary has no
  column.
\<close>

record bm25_df =
  df_columns :: "string list"
  df_rows :: "(string \<times> real) list"

definition retrieve_with_bm25 :: "bm25 \<Rightarrow> string \<Rightarrow> string list \<Rightarrow> error + bm25_df" where
  "retrieve_with_bm25 bm25 query documents =
     (let tokenized_docs = map str_split_ws documents;
          tokenized_query = str_split_ws query
      in case bm25 tokenized_docs tokenized_query of
           Inl e \<Rightarrow> Inl e
         | Inr scores \<Rightarrow>
             (let retrieved_docs = zip documents scores
              in Inr \<lparr>df_columns = (if retrieved_docs = [] then [] else [''document'', ''bm25_score'']),
                      df_rows = retrieved_docs\<rparr>))"

text \<open>
  \<^verbatim>\<open>compute_relevance_score(bm25_score_weight, feedback_weight, alpha=0.7, beta=0.3)\<close>:
  an argument left out is \<^term>\<open>None\<close> and takes its default.
\<close>

definition compute_relevance_score :: "real \<Rightarrow> real \<Rightarrow> real option \<Rightarrow> real option \<Rightarrow> real" where
  "compute_relevance_score bm25_score_weight feedback_weight alpha beta =
     (case alpha of None \<Rightarrow> 0.7 | Some a \<Rightarrow> a) * bm25_score_weight
       + (case beta of None \<Rightarrow> 0.3 | Some b \<Rightarrow> b) * feedback_weight"

text \<open>
  A row of the frame that \<^verbatim>\<open>rerank_documents_with_feedback\<close> sorts: the columns
  \<^verbatim>\<open>document\<close>, \<^verbatim>\<open>bm25_score\<close>, \<^verbatim>\<open>document_id\<close>, \<^verbatim>\<open>rating\<close> and \<^verbatim>\<open>relevance_score\<close>.
  The last three are \<^verbatim>\<open>NaN\<close> for a document that \<^verbatim>\<open>combined_df\<close> does not list.
\<close>

record scored_row =
  sr_document :: string
  sr_bm25_score :: real
  sr_document_id :: "string option"
  sr_rating :: "int option"
  sr_relevance_score :: "real option"

text \<open>
  Lines 148-159: the BM25 frame, left-merged with \<^verbatim>\<open>combined_df\<close> on
  \<^verbatim>\<open>document = document_id\<close> (a \<^verbatim>\<open>KeyError\<close> when the left frame has no column
  \<^verbatim>\<open>document\<close>), and the column of fused scores, each computed with the default
  weights.
\<close>

definition relevance_frame :: "bm25 \<Rightarrow> string \<Rightarrow> string list \<Rightarrow> (string \<times> int) list \<Rightarrow> error + scored_row list" where
  "relevance_frame bm25 query documents combined_df =
     (case retrieve_with_bm25 bm25 query documents of
        Inl e \<Rightarrow> Inl e
      | Inr bm25_df \<Rightarrow>
          if ''document'' \<notin> set (df_columns bm25_df) then Inl (KeyError ''document'')
          else Inr (map (\<lambda>((doc, bm25_score), rating).
                      \<lparr>sr_document = doc, sr_bm25_score = bm25_score,
                       sr_document_id = map_option (\<lambda>r. doc) rating, sr_rating = rating,
                       sr_relevance_score =
                         map_option (\<lambda>feedback_score.
                           compute_relevance_score bm25_score (real_of_int feedback_score) None None) rating\<rparr>)
                    (merge_left (df_rows bm25_df) fst combined_df)))"

text \<open>
  Line 162: \<^verbatim>\<open>combined_df.sort_values(by='relevance_score', ascending=False)\<close>. The call
  leaves \<^verbatim>\<open>kind\<close> at its default \<^verbatim>\<open>'quicksort'\<close>, the sort of numpy that pandas
  documents as not stable, and \<^verbatim>\<open>na_position\<close> at \<^verbatim>\<open>'last'\<close>. What the call promises is
  therefore a relation between the frame and its result: the same rows, the rows with a
  score in descending order of the score, then the rows without a score in the order they
  had. The order among rows of equal score is not determined.
\<close>

definition score_before :: "scored_row \<Rightarrow> scored_row \<Rightarrow> bool" where
  "score_before a b =
     (case sr_relevance_score b of
        None \<Rightarrow> True
      | Some y \<Rightarrow> (case sr_relevance_score a of None \<Rightarrow> False | Some x \<Rightarrow> y \<le> x))"

definition sort_values_desc :: "scored_row list \<Rightarrow> scored_row list \<Rightarrow> bool" where
  "sort_values_desc df sorted_df =
     (mset sorted_df = mset df
      \<and> sorted_wrt score_before sorted_df
      \<and> filter (\<lambda>r. sr_relevance_score r = None) sorted_df
          = filter (\<lambda>r. sr_relevance_score r = None) df)"

text \<open>
  \<^verbatim>\<open>rerank_documents_with_feedback(query, documents, feedback, combined_df)\<close>, as the
  relation between its arguments and a result \<open>res\<close>: the exception raised, or a sorted
  frame.
\<close>

definition rerank_documents_with_feedback ::
  "bm25 \<Rightarrow> string \<Rightarrow> string list \<Rightarrow> feedback_row list \<Rightarrow> (string \<times> int) list
    \<Rightarrow> error + scored_row list \<Rightarrow> bool" where
  "rerank_documents_with_feedback bm25 query documents feedback combined_df res =
     (case relevance_frame bm25 query documents combined_df of
        Inl e \<Rightarrow> res = Inl e
      | Inr df \<Rightarrow> (case res of Inl e \<Rightarrow> False | Inr sorted_df \<Rightarrow> sort_values_desc df sorted_df))"

text \<open>
  \<^verbatim>\<open>main_reranker(query)\<close>, with the feedback table and the file listing that it reads
  from the database and the data directory as parameters; \<open>res\<close> is the frame it prints
  as the sorted frame.
\<close>

definition main_reranker ::
  "bm25 \<Rightarrow> feedback_row list \<Rightarrow> string list \<Rightarrow> string \<Rightarrow> error + scored_row list \<Rightarrow> bool" where
  "main_reranker bm25 feedback_df documents_lst query res =
     (case combiner feedback_df documents_lst of
        Inl e \<Rightarrow> res = Inl e
      | Inr combined_df \<Rightarrow>
          rerank_documents_with_feedback bm25 query documents_lst feedback_df combined_df res)"

section \<open>Semantic path: \<^verbatim>\<open>FeedbackAwareCrossEncoderReranker\<close>\<close>

text \<open>
  A langchain \<^verbatim>\<open>Document\<close>: its text and its metadata dictionary, whose values are
  strings or numbers.
\<close>

datatype mvalue = MStr string | MNum real

record document =
  page_content :: string
  metadata :: "string \<Rightarrow> mvalue option"

text \<open>The rows \<open>(document_name, total_rating)\<close> of the injected feedback table.\<close>

type_synonym feedback_table = "(string \<times> real) list"

text \<open>
  \<^verbatim>\<open>_get_document_feedback_score(document)\<close>; \<open>feedback_df\<close> is the attribute
  \<^verbatim>\<open>self.feedback_df\<close>, \<^term>\<open>None\<close> when no table was supplied.
\<close>

definition get_document_feedback_score :: "feedback_table option \<Rightarrow> document \<Rightarrow> real" where
  "get_document_feedback_score feedback_df doc =
     (case feedback_df of
        None \<Rightarrow> 0.5
      | Some df \<Rightarrow>
          (let source = (case metadata doc ''source'' of None \<Rightarrow> MStr [] | Some v \<Rightarrow> v);
               matching_rows = filter (\<lambda>(document_name, total_rating). MStr document_name = source) df
           in if matching_rows = [] then 0.5
              else sum_list (map snd matching_rows) / real (length matching_rows)))"

text \<open>
  Modelled from the spec: the injected cross-encoder (langchain's \<^verbatim>\<open>BaseCrossEncoder\<close>,
  a library outside the repository) is a parameter \<open>model\<close> giving the score of one
  (query, content) pair; its method \<^verbatim>\<open>score\<close> scores a list of pairs one by one, in
  order (\<^verbatim>\<open>self.model.score\<close>).
\<close>

definition model_score :: "(string \<Rightarrow> string \<Rightarrow> real) \<Rightarrow> (string \<times> string) list \<Rightarrow> real list" where
  "model_score model text_pairs = map (\<lambda>(q, content). model q content) text_pairs"

text \<open>Lines 72-86: every document paired with its combined score.\<close>

definition docs_with_scores ::
  "(string \<Rightarrow> string \<Rightarrow> real) \<Rightarrow> feedback_table option \<Rightarrow> real \<Rightarrow> document list \<Rightarrow> string
    \<Rightarrow> (document \<times> real) list" where
  "docs_with_scores model feedback_df feedback_weight documents query =
     (let cross_encoder_scores = model_score model (map (\<lambda>doc. (query, page_content doc)) documents)
      in map (\<lambda>(doc, cross_encoder_score).
                (doc, (1 - feedback_weight) * cross_encoder_score
                        + feedback_weight * get_document_feedback_score feedback_df doc))
             (zip documents cross_encoder_scores))"

text \<open>
  \<^verbatim>\<open>sorted(xs, key=operator.itemgetter(1), reverse=True)\<close>: Python's sort is stable, also
  with \<^verbatim>\<open>reverse=True\<close>, so the result is the stable sort by the negated score.
\<close>

definition sorted_reverse :: "('a \<times> real) list \<Rightarrow> ('a \<times> real) list" where
  "sorted_reverse xs = sort_key (\<lambda>p. - snd p) xs"

text \<open>The slice \<^verbatim>\<open>xs[:n]\<close>; a negative \<open>n\<close> counts from the end.\<close>

definition slice_to :: "int \<Rightarrow> 'a list \<Rightarrow> 'a list" where
  "slice_to n xs = (if 0 \<le> n then take (nat n) xs else take (nat (int (length xs) + n)) xs)"

text \<open>Line 89: the local \<^verbatim>\<open>result\<close>.\<close>

definition result ::
  "(string \<Rightarrow> string \<Rightarrow> real) \<Rightarrow> feedback_table option \<Rightarrow> real \<Rightarrow> document list \<Rightarrow> string
    \<Rightarrow> (document \<times> real) list" where
  "result model feedback_df feedback_weight documents query =
     sorted_reverse (docs_with_scores model feedback_df feedback_weight documents query)"

text \<open>
  \<^verbatim>\<open>compress_documents(documents, query)\<close>; \<open>model\<close>, \<open>top_n\<close>, \<open>feedback_df\<close> and
  \<open>feedback_weight\<close> are the attributes of \<^verbatim>\<open>self\<close>. (The constructor, which only stores
  them, is not modelled.) Lines 92-102 zip the slice of
  \<^verbatim>\<open>result\<close> with itself, so that \<^verbatim>\<open>cross_encoder_score\<close> is bound to the second
  component of the same pair as \<^verbatim>\<open>score\<close>.
\<close>

definition compress_documents ::
  "(string \<Rightarrow> string \<Rightarrow> real) \<Rightarrow> int \<Rightarrow> feedback_table option \<Rightarrow> real \<Rightarrow> document list \<Rightarrow> string
    \<Rightarrow> document list" where
  "compress_documents model top_n feedback_df feedback_weight documents query =
     map (\<lambda>((doc, score), (doc', cross_encoder_score)).
            doc\<lparr>metadata := (metadata doc)
                  (''relevance_score'' \<mapsto> MNum score,
                   ''cross_encoder_score'' \<mapsto> MNum cross_encoder_score,
                   ''feedback_score'' \<mapsto> MNum (get_document_feedback_score feedback_df doc))\<rparr>)
         (zip (slice_to top_n (result model feedback_df feedback_weight documents query))
              (slice_to top_n (result model feedback_df feedback_weight documents query)))"

section \<open>Quantities used to state the properties\<close>

text \<open>The identifiers of a feedback row as the inner loop sees them, trimmed.\<close>

definition trimmed_ids :: "feedback_row \<Rightarrow> string list" where
  "trimmed_ids row = map (str_strip [dquote]) (parse_document_ids (fb_document_id row))"

definition first_id :: "feedback_row \<Rightarrow> string option" where
  "first_id row = (case trimmed_ids row of [] \<Rightarrow> None | a # ids \<Rightarrow> Some a)"

text \<open>
  The sum of the ratings of the rows that reference \<open>d\<close>, a row counting once for every
  time it lists \<open>d\<close>.
\<close>

definition rating_sum :: "feedback_row list \<Rightarrow> string \<Rightarrow> int" where
  "rating_sum feedback d =
     (\<Sum>row\<leftarrow>feedback. fb_rating row * int (count_list (trimmed_ids row) d))"

text \<open>Keys and ratings of a cumulative-rating frame that may not exist yet.\<close>

definition df_keys :: "rating_df option \<Rightarrow> string set" where
  "df_keys df = (case df of None \<Rightarrow> {} | Some rows \<Rightarrow> fst ` set rows)"

definition df_distinct :: "rating_df option \<Rightarrow> bool" where
  "df_distinct df = (case df of None \<Rightarrow> True | Some rows \<Rightarrow> distinct (map fst rows))"

definition rating_of :: "rating_df option \<Rightarrow> string \<Rightarrow> int" where
  "rating_of df d =
     (case df of
        None \<Rightarrow> 0
      | Some rows \<Rightarrow> (case map_of rows d of None \<Rightarrow> 0 | Some r \<Rightarrow> r))"

section \<open>Concrete inputs\<close>

text \<open>
  The scenario of the specification: the identifier fields \<^verbatim>\<open>["a","b"]\<close> with rating 2
  and \<^verbatim>\<open>["b"]\<close> with rating 1.
\<close>

definition scenario_feedback :: "feedback_row list" where
  "scenario_feedback =
     [\<lparr>fb_query = ''q1'', fb_answer = ''a1'',
       fb_document_id =
         [CHR ''['', dquote, CHR ''a'', dquote, CHR '','', dquote, CHR ''b'', dquote, CHR '']''],
       fb_rating = 2\<rparr>,
      \<lparr>fb_query = ''q2'', fb_answer = ''a2'',
       fb_document_id = [CHR ''['', dquote, CHR ''b'', dquote, CHR '']''],
       fb_rating = 1\<rparr>]"

text \<open>A feedback row whose identifier field is the serialized empty list \<^verbatim>\<open>[]\<close>.\<close>

definition empty_id_row :: feedback_row where
  "empty_id_row = \<lparr>fb_query = ''q'', fb_answer = ''r'', fb_document_id = ''[]'', fb_rating = 1\<rparr>"

text \<open>
  Eighteen candidates that share no term with the query and have no feedback (the only
  feedback row is about another file): BM25 gives each the score 0.
\<close>

definition tie_bm25 :: bm25 where
  "tie_bm25 tokenized_docs tokenized_query = Inr (map (\<lambda>d. 0) tokenized_docs)"

definition tie_feedback :: "feedback_row list" where
  "tie_feedback = [\<lparr>fb_query = ''q'', fb_answer = ''r'', fb_document_id = ''z'', fb_rating = 1\<rparr>]"

definition tie_documents :: "string list" where
  "tie_documents =
     [''c00'', ''c01'', ''c02'', ''c03'', ''c04'', ''c05'', ''c06'', ''c07'', ''c08'',
      ''c09'', ''c10'', ''c11'', ''c12'', ''c13'', ''c14'', ''c15'', ''c16'', ''c17'']"

definition tie_row :: "string \<Rightarrow> scored_row" where
  "tie_row d = \<lparr>sr_document = d, sr_bm25_score = 0, sr_document_id = Some d, sr_rating = Some 0,
               sr_relevance_score = Some 0\<rparr>"

definition tie_sorted :: "string list" where
  "tie_sorted =
     [''c00'', ''c01'', ''c16'', ''c15'', ''c14'', ''c13'', ''c12'', ''c11'', ''c10'',
      ''c09'', ''c08'', ''c07'', ''c06'', ''c05'', ''c04'', ''c03'', ''c02'', ''c17'']"

text \<open>
  A stand-in for the BM25 collaborator on small inputs: the number of tokens of the document
  that occur in the query.
\<close>

definition count_bm25 :: bm25 where
  "count_bm25 tokenized_docs tokenized_query =
     Inr (map (\<lambda>d. real (length (filter (\<lambda>t. t \<in> set tokenized_query) d))) tokenized_docs)"

text \<open>
  Two candidates of which the second has the query term twice, and the frame that lists
  the second one first.
\<close>

definition baz_documents :: "string list" where
  "baz_documents = [''foo bar'', ''foo baz baz'']"

definition baz_ranked :: "scored_row list" where
  "baz_ranked =
     [\<lparr>sr_document = ''foo baz baz'', sr_bm25_score = 2, sr_document_id = Some ''foo baz baz'',
       sr_rating = Some 0, sr_relevance_score = Some (7 / 5)\<rparr>,
      \<lparr>sr_document = ''foo bar'', sr_bm25_score = 0, sr_document_id = Some ''foo bar'',
       sr_rating = Some 0, sr_relevance_score = Some 0\<rparr>]"

text \<open>Three documents, a feedback table and a cross-encoder for the semantic path.\<close>

definition doc_x :: document where
  "doc_x = \<lparr>page_content = ''x'', metadata = [''source'' \<mapsto> MStr ''x.txt'']\<rparr>"

definition doc_y :: document where
  "doc_y = \<lparr>page_content = ''y'', metadata = [''source'' \<mapsto> MStr ''y.txt'', ''page'' \<mapsto> MNum 7]\<rparr>"

definition doc_z :: document where
  "doc_z = \<lparr>page_content = ''z'', metadata = Map.empty\<rparr>"

definition small_table :: feedback_table where
  "small_table = [(''y.txt'', 1), (''y.txt'', 0), (''w.txt'', 1)]"

definition unit_model :: "string \<Rightarrow> string \<Rightarrow> real" where
  "unit_model q content = (if content = ''x'' then 1 else 0)"

section \<open>Feedback aggregation\<close>

subsection \<open>The loops always produce a frame once a row has been read\<close>

lemma add_rating_Some: "\<exists>rows. add_rating df d r = Some rows"
  by (simp add: add_rating_def Let_def)

lemma str_split_not_Nil: "str_split sep s \<noteq> []"
  by (induction s) (auto split: list.splits)

lemma parse_document_ids_not_Nil: "parse_document_ids s \<noteq> []"
  by (simp add: parse_document_ids_def str_split_not_Nil)

lemma ids_loop_Some: "\<exists>rows. ids_loop r ids (Some rows0) = Some rows"
proof (induction ids arbitrary: rows0)
  case Nil
  then show ?case by simp
next
  case (Cons a ids)
  obtain rows1 where "add_rating (Some rows0) (str_strip [dquote] a) r = Some rows1"
    using add_rating_Some by blast
  with Cons.IH [of rows1] show ?case by simp
qed

lemma ids_loop_Cons_Some: "\<exists>rows. ids_loop r (a # ids) df = Some rows"
proof -
  obtain rows1 where "add_rating df (str_strip [dquote] a) r = Some rows1"
    using add_rating_Some by blast
  with ids_loop_Some [of r ids rows1] show ?thesis by simp
qed

lemma feedback_loop_Some: "\<exists>rows. feedback_loop fb (Some rows0) = Some rows"
proof (induction fb arbitrary: rows0)
  case Nil
  then show ?case by simp
next
  case (Cons row fb)
  obtain rows1 where
    "ids_loop (fb_rating row) (parse_document_ids (fb_document_id row)) (Some rows0) = Some rows1"
    using ids_loop_Some by blast
  with Cons.IH [of rows1] show ?case by simp
qed

lemma feedback_loop_Cons_Some: "\<exists>rows. feedback_loop (row # fb) None = Some rows"
proof -
  obtain a ids where "parse_document_ids (fb_document_id row) = a # ids"
    using parse_document_ids_not_Nil by (cases "parse_document_ids (fb_document_id row)") auto
  then obtain rows1 where
    "ids_loop (fb_rating row) (parse_document_ids (fb_document_id row)) None = Some rows1"
    using ids_loop_Cons_Some [of "fb_rating row" a ids None] by auto
  with feedback_loop_Some [of fb rows1] show ?thesis by simp
qed

subsection \<open>Keys of the cumulative-rating frame\<close>

lemma map_fst_bump:
  "map (fst \<circ> (\<lambda>(d, r). if d = k then (d, r + x) else (d, r))) rows = map fst rows"
  by (induction rows) auto

lemma keys_bump:
  "fst ` set (map (\<lambda>(d, r). if d = k then (d, r + x) else (d, r)) rows) = fst ` set rows"
proof -
  have "fst ` set (map (\<lambda>(d, r). if d = k then (d, r + x) else (d, r)) rows)
          = set (map (fst \<circ> (\<lambda>(d, r). if d = k then (d, r + x) else (d, r))) rows)"
    by (simp add: image_image)
  also have "\<dots> = fst ` set rows"
    by (simp only: map_fst_bump set_map)
  finally show ?thesis .
qed

lemma df_keys_add_rating: "df_keys (add_rating df d r) = insert d (df_keys df)"
proof (cases df)
  case None
  then show ?thesis by (simp add: add_rating_def df_keys_def)
next
  case (Some rows)
  show ?thesis
  proof (cases "d \<in> fst ` set rows")
    case True
    with Some show ?thesis
      by (simp add: add_rating_def df_keys_def keys_bump insert_absorb del: set_map)
  next
    case False
    with Some show ?thesis
      by (simp add: add_rating_def df_keys_def)
  qed
qed

lemma df_keys_ids_loop:
  "df_keys (ids_loop r ids df) = df_keys df \<union> str_strip [dquote] ` set ids"
  by (induction ids arbitrary: df) (auto simp: df_keys_add_rating)

lemma df_keys_feedback_loop:
  "df_keys (feedback_loop fb df) = df_keys df \<union> (\<Union>row\<in>set fb. set (trimmed_ids row))"
  by (induction fb arbitrary: df) (auto simp: df_keys_ids_loop trimmed_ids_def)

text \<open>No identifier is listed twice in the frame.\<close>

lemma df_distinct_add_rating: "df_distinct df \<Longrightarrow> df_distinct (add_rating df d r)"
proof (cases df)
  case None
  then show ?thesis by (simp add: add_rating_def df_distinct_def)
next
  case (Some rows)
  assume "df_distinct df"
  with Some have d: "distinct (map fst rows)" by (simp add: df_distinct_def)
  show ?thesis
  proof (cases "d \<in> fst ` set rows")
    case True
    with Some d show ?thesis
      by (simp add: add_rating_def df_distinct_def map_fst_bump del: set_map)
  next
    case False
    with Some d show ?thesis
      by (simp add: add_rating_def df_distinct_def)
  qed
qed

lemma df_distinct_ids_loop: "df_distinct df \<Longrightarrow> df_distinct (ids_loop r ids df)"
  by (induction ids arbitrary: df) (auto simp: df_distinct_add_rating)

lemma df_distinct_feedback_loop: "df_distinct df \<Longrightarrow> df_distinct (feedback_loop fb df)"
  by (induction fb arbitrary: df) (auto simp: df_distinct_ids_loop)

subsection \<open>Ratings of the cumulative-rating frame\<close>

lemma map_of_bump:
  "map_of (map (\<lambda>(d, r). if d = k then (d, r + x) else (d, r)) rows) k'
     = (if k' = k then map_option (\<lambda>v. v + x) (map_of rows k) else map_of rows k')"
  by (induction rows) auto

lemma rating_of_add_rating_Some:
  "rating_of (add_rating (Some rows) d r) k = rating_of (Some rows) k + (if k = d then r else 0)"
proof (cases "d \<in> fst ` set rows")
  case True
  then obtain v where "map_of rows d = Some v"
    by (metis domD dom_map_of_conv_image_fst)
  with True show ?thesis
    by (simp add: add_rating_def rating_of_def map_of_bump del: set_map)
next
  case False
  then have "map_of rows d = None" by (simp add: map_of_eq_None_iff)
  with False show ?thesis
    by (auto simp: add_rating_def rating_of_def map_add_def split: option.splits)
qed

text \<open>The pass that creates the frame counts its rating twice.\<close>

lemma rating_of_add_rating_None:
  "rating_of (add_rating None d r) k = (if k = d then r + r else 0)"
  by (simp add: add_rating_def rating_of_def)

lemma rating_of_ids_loop_Some:
  "rating_of (ids_loop r ids (Some rows)) k
     = rating_of (Some rows) k + r * int (count_list (map (str_strip [dquote]) ids) k)"
proof (induction ids arbitrary: rows)
  case Nil
  then show ?case by simp
next
  case (Cons a ids)
  obtain rows1 where r1: "add_rating (Some rows) (str_strip [dquote] a) r = Some rows1"
    using add_rating_Some by blast
  have "rating_of (Some rows1) k
          = rating_of (Some rows) k + (if k = str_strip [dquote] a then r else 0)"
    using rating_of_add_rating_Some [of rows "str_strip [dquote] a" r k] r1 by simp
  with Cons.IH [of rows1] r1 show ?case
    by (simp add: algebra_simps)
qed

lemma rating_of_ids_loop_None:
  "rating_of (ids_loop r (a # ids) None) k
     = r * int (count_list (map (str_strip [dquote]) (a # ids)) k)
       + (if k = str_strip [dquote] a then r else 0)"
proof -
  obtain rows1 where r1: "add_rating None (str_strip [dquote] a) r = Some rows1"
    using add_rating_Some by blast
  have "rating_of (Some rows1) k = (if k = str_strip [dquote] a then r + r else 0)"
    using rating_of_add_rating_None [of "str_strip [dquote] a" r k] r1 by simp
  with rating_of_ids_loop_Some [of r ids rows1 k] r1 show ?thesis
    by (simp add: algebra_simps)
qed

lemma rating_of_feedback_loop_Some:
  "rating_of (feedback_loop fb (Some rows)) k = rating_of (Some rows) k + rating_sum fb k"
proof (induction fb arbitrary: rows)
  case Nil
  then show ?case by (simp add: rating_sum_def)
next
  case (Cons row fb)
  obtain rows1 where r1:
    "ids_loop (fb_rating row) (parse_document_ids (fb_document_id row)) (Some rows) = Some rows1"
    using ids_loop_Some by blast
  have "rating_of (Some rows1) k
          = rating_of (Some rows) k + fb_rating row * int (count_list (trimmed_ids row) k)"
    using rating_of_ids_loop_Some
            [of "fb_rating row" "parse_document_ids (fb_document_id row)" rows k] r1
    by (simp add: trimmed_ids_def)
  with Cons.IH [of rows1] r1 show ?case
    by (simp add: rating_sum_def)
qed

text \<open>
  What the loops compute: for every identifier the sum of the ratings of the rows that
  list it (once per listing), and the rating of the first row once more for the very first
  identifier read.
\<close>

lemma rating_of_feedback_loop_None:
  "rating_of (feedback_loop (row # fb) None) k
     = rating_sum (row # fb) k + (if first_id row = Some k then fb_rating row else 0)"
proof -
  obtain a ids where ids: "parse_document_ids (fb_document_id row) = a # ids"
    using parse_document_ids_not_Nil by (cases "parse_document_ids (fb_document_id row)") auto
  obtain rows1 where r1: "ids_loop (fb_rating row) (a # ids) None = Some rows1"
    using ids_loop_Cons_Some by blast
  have "rating_of (Some rows1) k
          = fb_rating row * int (count_list (trimmed_ids row) k)
            + (if first_id row = Some k then fb_rating row else 0)"
    using rating_of_ids_loop_None [of "fb_rating row" a ids k] r1 ids
    by (auto simp: trimmed_ids_def first_id_def)
  with rating_of_feedback_loop_Some [of fb rows1 k] r1 ids show ?thesis
    by (simp add: rating_sum_def)
qed

subsection \<open>The merge with the candidate list\<close>

lemma filter_key_distinct:
  "distinct (map fst right) \<Longrightarrow>
     filter (\<lambda>(k, v). k = x) right = (case map_of right x of None \<Rightarrow> [] | Some v \<Rightarrow> [(x, v)])"
proof (induction right)
  case Nil
  then show ?case by simp
next
  case (Cons p right)
  obtain k v where p: "p = (k, v)" by (cases p)
  from Cons.prems p have nk: "k \<notin> fst ` set right" and d: "distinct (map fst right)" by auto
  show ?case
  proof (cases "k = x")
    case True
    with nk have "map_of right x = None" by (simp add: map_of_eq_None_iff)
    with Cons.IH [OF d] True p show ?thesis by simp
  next
    case False
    with Cons.IH [OF d] p show ?thesis by simp
  qed
qed

lemma merge_left_distinct:
  "distinct (map fst right) \<Longrightarrow>
     merge_left left key right = map (\<lambda>l. (l, map_of right (key l))) left"
  by (induction left) (auto simp: merge_left_def filter_key_distinct split: option.splits)

lemma combiner_rows:
  assumes "feedback_loop feedback None = Some df"
  shows "combiner feedback documents_lst = Inr (map (\<lambda>d. (d, rating_of (Some df) d)) documents_lst)"
proof -
  have "df_distinct (feedback_loop feedback None)"
    by (rule df_distinct_feedback_loop) (simp add: df_distinct_def)
  with assms have "distinct (map fst df)" by (simp add: df_distinct_def)
  then show ?thesis using assms
    by (simp add: combiner_def merge_left_distinct rating_of_def)
qed

text \<open>
  \<^verbatim>\<open>combiner\<close> in closed form, for a feedback table with at least one row: one row per
  candidate, in the order of the candidates.
\<close>

lemma combiner_closed_form:
  "combiner (row # fb) documents_lst
     = Inr (map (\<lambda>d. (d, rating_sum (row # fb) d
                          + (if first_id row = Some d then fb_rating row else 0)))
              documents_lst)"
proof -
  obtain df where df: "feedback_loop (row # fb) None = Some df"
    using feedback_loop_Cons_Some by blast
  have "rating_of (Some df) d
          = rating_sum (row # fb) d + (if first_id row = Some d then fb_rating row else 0)" for d
    using rating_of_feedback_loop_None [of row fb d] df by simp
  with combiner_rows [OF df, of documents_lst] show ?thesis by simp
qed

text \<open>
  Reordering the rows after the first one does not change the result; which row comes
  first does.
\<close>

lemma rating_sum_mset: "mset fb = mset fb' \<Longrightarrow> rating_sum fb d = rating_sum fb' d"
proof -
  assume "mset fb = mset fb'"
  then have "sum_mset (image_mset (\<lambda>row. fb_rating row * int (count_list (trimmed_ids row) d)) (mset fb))
               = sum_mset (image_mset (\<lambda>row. fb_rating row * int (count_list (trimmed_ids row) d)) (mset fb'))"
    by simp
  then show ?thesis
    by (simp add: rating_sum_def flip: mset_map sum_mset_sum_list)
qed

lemma combiner_permute_tail:
  "mset fb = mset fb' \<Longrightarrow> combiner (row # fb) documents_lst = combiner (row # fb') documents_lst"
proof -
  assume "mset fb = mset fb'"
  then have "rating_sum (row # fb) d = rating_sum (row # fb') d" for d
    using rating_sum_mset [of "row # fb" "row # fb'" d] by simp
  then show ?thesis by (simp add: combiner_closed_form)
qed

text \<open>
  A candidate that no feedback row references gets the rating 0, whenever there is a
  feedback row at all.
\<close>

lemma combiner_default:
  assumes "feedback \<noteq> []" and "\<forall>row \<in> set feedback. d \<notin> set (trimmed_ids row)"
  shows "\<exists>rows. combiner feedback documents_lst = Inr rows
            \<and> map fst rows = documents_lst
            \<and> (\<forall>r. (d, r) \<in> set rows \<longrightarrow> r = 0)"
proof -
  obtain row fb where fb: "feedback = row # fb"
    using assms(1) by (cases feedback) auto
  obtain df where df: "feedback_loop feedback None = Some df"
    using feedback_loop_Cons_Some fb by blast
  have "df_keys (Some df) = (\<Union>row\<in>set feedback. set (trimmed_ids row))"
    using df_keys_feedback_loop [of feedback None] df by (simp add: df_keys_def)
  with assms(2) have "d \<notin> fst ` set df" by (auto simp: df_keys_def)
  then have "map_of df d = None" by (simp add: map_of_eq_None_iff)
  then have "rating_of (Some df) d = 0" by (simp add: rating_of_def)
  with combiner_rows [OF df, of documents_lst] show ?thesis
    by (auto simp: comp_def)
qed

subsection \<open>The scenario of the specification\<close>

text \<open>
  Claim C1. The two feedback rows of the scenario, the first referencing \<open>a\<close> and \<open>b\<close>
  with rating 2 and the second referencing \<open>b\<close> with rating 1, are claimed to aggregate
  to \<open>a: 2, b: 3\<close>. \<^verbatim>\<open>combiner\<close> returns \<open>a: 4, b: 3\<close>: the pass that creates
  \<^verbatim>\<open>feedback_rating_df\<close> from the first identifier also runs the update branch, which
  adds the rating of the first row to that identifier a second time
  (\<open>combiner_closed_form\<close> gives the result for every feedback table with a row).
\<close>

theorem combiner_scenario:
  "map trimmed_ids scenario_feedback = [[''a'', ''b''], [''b'']]
   \<and> map fb_rating scenario_feedback = [2, 1]
   \<and> combiner scenario_feedback [''a'', ''b''] = Inr [(''a'', 4), (''b'', 3)]"
  by (simp add: combiner_def scenario_feedback_def trimmed_ids_def parse_document_ids_def
        str_strip_def dquote_def add_rating_def merge_left_def)

text \<open>
  Claim C2. Permuting the feedback rows is claimed to leave the aggregated ratings
  unchanged. The two rows of the scenario in the opposite order aggregate to
  \<open>a: 2, b: 4\<close> instead of \<open>a: 4, b: 3\<close>: the rating counted twice is the one of
  whichever row comes first (\<open>combiner_permute_tail\<close>: the order of the other rows is
  immaterial).
\<close>

theorem combiner_order_matters:
  "mset (rev scenario_feedback) = mset scenario_feedback
   \<and> combiner (rev scenario_feedback) [''a'', ''b''] = Inr [(''a'', 2), (''b'', 4)]
   \<and> combiner (rev scenario_feedback) [''a'', ''b''] \<noteq> combiner scenario_feedback [''a'', ''b'']"
  by (simp add: combiner_def scenario_feedback_def parse_document_ids_def
        str_strip_def dquote_def add_rating_def merge_left_def)

subsection \<open>Identifiers that are empty after trimming\<close>

text \<open>
  Claim C7. An identifier that is the empty string after trimming is claimed to be
  dropped. The code has no such test: the field \<^verbatim>\<open>[]\<close> yields the one identifier \<open>''\<close>,
  which becomes a key of the cumulative-rating frame and, when the empty string is among
  the candidates, a row of the frame that \<^verbatim>\<open>combiner\<close> returns.
\<close>

theorem empty_identifier_counterexample:
  "trimmed_ids empty_id_row = [[]]
   \<and> feedback_loop [empty_id_row] None = Some [([], 2)]
   \<and> combiner [empty_id_row] [[]] = Inr [([], 2)]"
  by (simp add: combiner_def empty_id_row_def trimmed_ids_def parse_document_ids_def
        str_strip_def dquote_def add_rating_def merge_left_def)

text \<open>
  Claim C7, as amended: nothing is dropped. Every identifier of every feedback row, as
  trimmed and the empty string included, is a key of the cumulative-rating frame.
\<close>

theorem identifiers_enter_frame:
  assumes "row \<in> set feedback" and "d \<in> set (trimmed_ids row)"
  shows "\<exists>df. feedback_loop feedback None = Some df \<and> d \<in> fst ` set df"
proof -
  obtain row0 fb where fb: "feedback = row0 # fb"
    using assms(1) by (cases feedback) auto
  obtain df where df: "feedback_loop feedback None = Some df"
    using feedback_loop_Cons_Some fb by blast
  have "df_keys (Some df) = (\<Union>row\<in>set feedback. set (trimmed_ids row))"
    using df_keys_feedback_loop [of feedback None] df by (simp add: df_keys_def)
  with assms have "d \<in> fst ` set df" by (auto simp: df_keys_def)
  with df show ?thesis by blast
qed

text \<open>
  Claim C7, the amended statement at the row whose identifier field is \<^verbatim>\<open>[]\<close>: its one
  identifier is the empty string, and the empty string is a key of the frame.
\<close>

theorem identifiers_enter_frame_witness:
  "empty_id_row \<in> set [empty_id_row] \<and> [] \<in> set (trimmed_ids empty_id_row)
   \<and> (\<exists>df. feedback_loop [empty_id_row] None = Some df \<and> [] \<in> fst ` set df)"
proof -
  have 1: "empty_id_row \<in> set [empty_id_row]" by simp
  have 2: "[] \<in> set (trimmed_ids empty_id_row)"
    by (simp add: empty_id_row_def trimmed_ids_def parse_document_ids_def str_strip_def)
  from identifiers_enter_frame [OF 1 2] 1 2 show ?thesis by blast
qed

subsection \<open>No feedback at all\<close>

text \<open>
  Claim C5. A candidate that no feedback row references is claimed to get the feedback
  score 0 in the lexical path for every feedback table, the empty one included. With an
  empty table the loop of \<^verbatim>\<open>combiner\<close> never binds \<^verbatim>\<open>feedback_rating_df\<close>, and the merge
  that reads it raises \<^verbatim>\<open>UnboundLocalError\<close>, so that \<^verbatim>\<open>main_reranker\<close> ends with this
  exception whatever the candidates are. (With at least one feedback row the score is 0,
  \<open>combiner_default\<close> and \<open>main_reranker_default\<close>; in the semantic path it is 0.5,
  \<open>feedback_score_default\<close>.)
\<close>

theorem combiner_no_feedback:
  "combiner [] documents_lst = Inl (UnboundLocalError ''feedback_rating_df'')
   \<and> main_reranker bm25 [] documents_lst query res
       = (res = Inl (UnboundLocalError ''feedback_rating_df''))"
  by (simp add: combiner_def main_reranker_def)

section \<open>Lexical path: scoring and ranking\<close>

lemma retrieve_with_bm25_Nil:
  "retrieve_with_bm25 bm25 query [] =
     (case bm25 [] (str_split_ws query) of
        Inl e \<Rightarrow> Inl e
      | Inr scores \<Rightarrow> Inr \<lparr>df_columns = [], df_rows = []\<rparr>)"
  by (simp add: retrieve_with_bm25_def split: sum.splits)

lemma relevance_frame_Nil:
  "relevance_frame bm25 query [] combined_df =
     Inl (case bm25 [] (str_split_ws query) of Inl e \<Rightarrow> e | Inr scores \<Rightarrow> KeyError ''document'')"
  by (cases "bm25 [] (str_split_ws query)")
     (simp_all add: relevance_frame_def retrieve_with_bm25_Nil)

lemma relevance_frame_rows:
  "relevance_frame bm25 query documents combined_df = Inr rows \<Longrightarrow>
     list_all (\<lambda>row. sr_relevance_score row
                    = map_option (\<lambda>x. 0.7 * sr_bm25_score row + 0.3 * real_of_int x) (sr_rating row))
       rows"
  by (auto simp: relevance_frame_def compute_relevance_score_def list_all_iff
           split: sum.splits if_splits)

lemma rerank_sorted:
  "rerank_documents_with_feedback bm25 query documents feedback combined_df (Inr sorted_df) \<Longrightarrow>
     sorted_wrt score_before sorted_df
     \<and> (\<exists>df. relevance_frame bm25 query documents combined_df = Inr df \<and> mset sorted_df = mset df)"
  by (auto simp: rerank_documents_with_feedback_def sort_values_desc_def split: sum.splits)

text \<open>
  In \<^verbatim>\<open>main_reranker\<close> the candidates that are scored are the candidates that
  \<^verbatim>\<open>combiner\<close> was given, so every row has a rating and a score.
\<close>

lemma merge_left_matched:
  "key ` set left \<subseteq> fst ` set right \<Longrightarrow>
     list_all (\<lambda>(l, v). v \<noteq> None) (merge_left left key right)"
proof (induction left)
  case Nil
  then show ?case by (simp add: merge_left_def)
next
  case (Cons l left)
  from Cons.prems obtain v where "(key l, v) \<in> set right" by auto
  then have ne: "filter (\<lambda>(k, v). k = key l) right \<noteq> []"
    by (auto simp: filter_empty_conv)
  have tl: "list_all (\<lambda>(l, v). v \<noteq> None) (merge_left left key right)"
    using Cons by simp
  from ne tl show ?case
    by (cases "filter (\<lambda>(k, v). k = key l) right")
       (auto simp: merge_left_def list_all_iff)
qed

lemma combiner_keys:
  "combiner feedback documents_lst = Inr combined_df \<Longrightarrow> map fst combined_df = documents_lst"
proof -
  assume c: "combiner feedback documents_lst = Inr combined_df"
  then obtain df where df: "feedback_loop feedback None = Some df"
    by (auto simp: combiner_def split: option.splits)
  from combiner_rows [OF df, of documents_lst] c show ?thesis
    by (auto simp: comp_def)
qed

lemma relevance_frame_scored:
  assumes "relevance_frame bm query documents combined_df = Inr rows"
    and "set documents \<subseteq> fst ` set combined_df"
  shows "list_all (\<lambda>row. sr_relevance_score row \<noteq> None) rows"
proof -
  from assms(1) obtain bdf where b: "retrieve_with_bm25 bm query documents = Inr bdf"
    and rows: "rows = map (\<lambda>((doc, bm25_score), rating).
                      \<lparr>sr_document = doc, sr_bm25_score = bm25_score,
                       sr_document_id = map_option (\<lambda>r. doc) rating, sr_rating = rating,
                       sr_relevance_score =
                         map_option (\<lambda>feedback_score.
                           compute_relevance_score bm25_score (real_of_int feedback_score)
                             None None) rating\<rparr>)
                    (merge_left (df_rows bdf) fst combined_df)"
    by (auto simp: relevance_frame_def split: sum.splits if_splits)
  from b obtain scores where "df_rows bdf = zip documents scores"
    by (auto simp: retrieve_with_bm25_def Let_def split: sum.splits)
  then have "fst ` set (df_rows bdf) \<subseteq> set documents"
    by (auto dest: set_zip_leftD)
  with assms(2) have "fst ` set (df_rows bdf) \<subseteq> fst ` set combined_df" by blast
  from merge_left_matched [OF this] show ?thesis
    by (auto simp: rows list_all_iff)
qed

lemma sorted_scored:
  assumes "sorted_wrt score_before rows"
    and "list_all (\<lambda>row. sr_relevance_score row \<noteq> None) rows"
  shows "\<exists>scores. map sr_relevance_score rows = map Some scores
                    \<and> sorted_wrt (\<lambda>x y. y \<le> x) scores"
proof -
  let ?scores = "map (\<lambda>row. the (sr_relevance_score row)) rows"
  from assms(2) have 1: "map sr_relevance_score rows = map Some ?scores"
    by (auto simp: list_all_iff)
  from assms
  have "sorted_wrt (\<lambda>a b. the (sr_relevance_score b) \<le> the (sr_relevance_score a)) rows"
    by (induction rows) (auto simp: score_before_def list_all_iff split: option.splits)
  then have 2: "sorted_wrt (\<lambda>x y. y \<le> x) ?scores"
    by (simp add: sorted_wrt_map)
  from 1 2 show ?thesis by blast
qed

lemma main_reranker_sorted:
  assumes "main_reranker bm feedback_df documents_lst query (Inr sorted_df)"
  shows "\<exists>scores. map sr_relevance_score sorted_df = map Some scores
                    \<and> sorted_wrt (\<lambda>x y. y \<le> x) scores"
proof -
  from assms obtain combined_df where c: "combiner feedback_df documents_lst = Inr combined_df"
    and r: "rerank_documents_with_feedback bm query documents_lst feedback_df combined_df
              (Inr sorted_df)"
    by (auto simp: main_reranker_def split: sum.splits)
  from r obtain df where f: "relevance_frame bm query documents_lst combined_df = Inr df"
    and s: "sort_values_desc df sorted_df"
    by (auto simp: rerank_documents_with_feedback_def split: sum.splits)
  have "set documents_lst \<subseteq> fst ` set combined_df"
    using combiner_keys [OF c] by (metis set_map subset_refl)
  from relevance_frame_scored [OF f this]
  have "list_all (\<lambda>row. sr_relevance_score row \<noteq> None) df" .
  moreover from s have "set sorted_df = set df"
    by (auto simp: sort_values_desc_def dest: mset_eq_setD)
  ultimately have "list_all (\<lambda>row. sr_relevance_score row \<noteq> None) sorted_df"
    by (simp add: list_all_iff)
  moreover from s have "sorted_wrt score_before sorted_df"
    by (simp add: sort_values_desc_def)
  ultimately show ?thesis using sorted_scored by blast
qed

lemma merge_left_sound:
  "(l, Some r) \<in> set (merge_left left key right) \<Longrightarrow> (key l, r) \<in> set right"
proof -
  assume "(l, Some r) \<in> set (merge_left left key right)"
  then obtain l' where l': "l' \<in> set left"
    and m: "(l, Some r) \<in> set (case filter (\<lambda>(k, v). k = key l') right of
                                  [] \<Rightarrow> [(l', None)]
                                | ms \<Rightarrow> map (\<lambda>(k, v). (l', Some v)) ms)"
    by (auto simp: merge_left_def)
  from m obtain k where "l = l'" and "(k, r) \<in> set (filter (\<lambda>(k, v). k = key l') right)"
    by (cases "filter (\<lambda>(k, v). k = key l') right") auto
  then show ?thesis by auto
qed

lemma relevance_frame_ratings:
  assumes "relevance_frame bm query documents combined_df = Inr rows"
    and "row \<in> set rows" and "sr_rating row = Some r"
  shows "(sr_document row, r) \<in> set combined_df"
proof -
  from assms(1) obtain bdf where b: "retrieve_with_bm25 bm query documents = Inr bdf"
    and rows: "rows = map (\<lambda>((doc, bm25_score), rating).
                      \<lparr>sr_document = doc, sr_bm25_score = bm25_score,
                       sr_document_id = map_option (\<lambda>r. doc) rating, sr_rating = rating,
                       sr_relevance_score =
                         map_option (\<lambda>feedback_score.
                           compute_relevance_score bm25_score (real_of_int feedback_score)
                             None None) rating\<rparr>)
                    (merge_left (df_rows bdf) fst combined_df)"
    by (auto simp: relevance_frame_def split: sum.splits if_splits)
  with assms(2,3) obtain doc s where
    "((doc, s), Some r) \<in> set (merge_left (df_rows bdf) fst combined_df)"
    and "sr_document row = doc"
    by auto
  with merge_left_sound [of "(doc, s)" r "df_rows bdf" fst combined_df] show ?thesis by simp
qed

text \<open>
  In \<^verbatim>\<open>main_reranker\<close> the rating that enters the fusion of a candidate that no feedback
  row references is 0, and its score is 0.7 times its BM25 score.
\<close>

lemma main_reranker_default:
  assumes "main_reranker bm feedback_df documents_lst query (Inr sorted_df)"
    and "\<forall>row \<in> set feedback_df. d \<notin> set (trimmed_ids row)"
    and "row \<in> set sorted_df" and "sr_document row = d"
  shows "sr_rating row = Some 0 \<and> sr_relevance_score row = Some (0.7 * sr_bm25_score row)"
proof -
  from assms(1) obtain combined_df where c: "combiner feedback_df documents_lst = Inr combined_df"
    and r: "rerank_documents_with_feedback bm query documents_lst feedback_df combined_df
              (Inr sorted_df)"
    by (auto simp: main_reranker_def split: sum.splits)
  from r obtain df where f: "relevance_frame bm query documents_lst combined_df = Inr df"
    and s: "sort_values_desc df sorted_df"
    by (auto simp: rerank_documents_with_feedback_def split: sum.splits)
  from s assms(3) have in_df: "row \<in> set df"
    by (auto simp: sort_values_desc_def dest: mset_eq_setD)
  have "set documents_lst \<subseteq> fst ` set combined_df"
    using combiner_keys [OF c] by (metis set_map subset_refl)
  from relevance_frame_scored [OF f this] in_df have "sr_relevance_score row \<noteq> None"
    by (auto simp: list_all_iff)
  moreover from relevance_frame_rows [OF f] in_df
  have rel: "sr_relevance_score row
          = map_option (\<lambda>x. 0.7 * sr_bm25_score row + 0.3 * real_of_int x) (sr_rating row)"
    by (auto simp: list_all_iff)
  ultimately obtain x where x: "sr_rating row = Some x" by (cases "sr_rating row") auto
  from relevance_frame_ratings [OF f in_df x] assms(4) have "(d, x) \<in> set combined_df" by simp
  moreover have "feedback_df \<noteq> []" using c by (auto simp: combiner_def)
  ultimately have "x = 0"
    using combiner_default [OF _ assms(2), of documents_lst] c by auto
  with x rel show ?thesis by simp
qed

text \<open>The eighteen tied candidates.\<close>

lemma tie_combiner:
  "combiner tie_feedback tie_documents = Inr (map (\<lambda>d. (d, 0)) tie_documents)"
  by (simp add: combiner_def tie_feedback_def tie_documents_def parse_document_ids_def
        str_strip_def dquote_def add_rating_def merge_left_def)

lemma tie_frame:
  "relevance_frame tie_bm25 ''q'' tie_documents (map (\<lambda>d. (d, 0)) tie_documents)
     = Inr (map tie_row tie_documents)"
  by (simp add: relevance_frame_def retrieve_with_bm25_def tie_bm25_def merge_left_def
        tie_row_def compute_relevance_score_def tie_documents_def)

lemma tie_sort: "sort_values_desc (map tie_row tie_documents) (map tie_row tie_sorted)"
proof -
  have "mset tie_sorted = mset tie_documents"
    by (simp add: tie_sorted_def tie_documents_def)
  then have "mset (map tie_row tie_sorted) = mset (map tie_row tie_documents)"
    by simp
  moreover have "sorted_wrt score_before (map tie_row xs)" for xs
    by (induction xs) (auto simp: score_before_def tie_row_def)
  moreover have "filter (\<lambda>r. sr_relevance_score r = None) (map tie_row xs) = []" for xs
    by (induction xs) (auto simp: tie_row_def)
  ultimately show ?thesis
    by (simp add: sort_values_desc_def)
qed

section \<open>Semantic path\<close>

subsection \<open>Feedback score\<close>

lemma feedback_score_default:
  "get_document_feedback_score None doc = 0.5"
  "list_all (\<lambda>(document_name, total_rating).
       MStr document_name \<noteq> (case metadata doc ''source'' of None \<Rightarrow> MStr [] | Some v \<Rightarrow> v)) df
     \<Longrightarrow> get_document_feedback_score (Some df) doc = 0.5"
proof -
  show "get_document_feedback_score None doc = 0.5"
    by (simp add: get_document_feedback_score_def)
next
  assume "list_all (\<lambda>(document_name, total_rating).
       MStr document_name \<noteq> (case metadata doc ''source'' of None \<Rightarrow> MStr [] | Some v \<Rightarrow> v)) df"
  then have "filter (\<lambda>(document_name, total_rating).
       MStr document_name = (case metadata doc ''source'' of None \<Rightarrow> MStr [] | Some v \<Rightarrow> v)) df = []"
    by (auto simp: list_all_iff filter_empty_conv)
  then show "get_document_feedback_score (Some df) doc = 0.5"
    by (simp add: get_document_feedback_score_def)
qed

lemma feedback_score_mean:
  assumes "metadata doc ''source'' = Some (MStr name)" and "name \<in> fst ` set df"
  shows "get_document_feedback_score (Some df) doc
           = sum_list (map snd (filter (\<lambda>(n, r). n = name) df))
               / real (length (filter (\<lambda>(n, r). n = name) df))"
proof -
  from assms(2) have "filter (\<lambda>(n, r). n = name) df \<noteq> []"
    by (auto simp: filter_empty_conv)
  with assms(1) show ?thesis
    by (simp add: get_document_feedback_score_def Let_def)
qed

lemma feedback_score_annotated:
  "get_document_feedback_score fdf
     (doc\<lparr>metadata := (metadata doc)
            (''relevance_score'' \<mapsto> a, ''cross_encoder_score'' \<mapsto> b, ''feedback_score'' \<mapsto> c)\<rparr>)
   = get_document_feedback_score fdf doc"
  by (cases fdf) (simp_all add: get_document_feedback_score_def)

subsection \<open>Scores, ranking and truncation\<close>

lemma docs_with_scores_map:
  "docs_with_scores model fdf w ds q =
     map (\<lambda>d. (d, (1 - w) * model q (page_content d) + w * get_document_feedback_score fdf d)) ds"
  by (simp add: docs_with_scores_def model_score_def zip_map2 zip_same_conv_map comp_def)

lemma map_fst_docs_with_scores: "map fst (docs_with_scores model fdf w ds q) = ds"
  by (simp add: docs_with_scores_map comp_def)

lemma mset_result:
  "mset (result model fdf w ds q) = mset (docs_with_scores model fdf w ds q)"
  by (simp add: result_def sorted_reverse_def)

lemma set_result:
  "set (result model fdf w ds q) = set (docs_with_scores model fdf w ds q)"
  by (simp add: result_def sorted_reverse_def)


lemma sorted_result: "sorted_wrt (\<lambda>a b. snd b \<le> snd a) (result model fdf w ds q)"
proof -
  have "sorted (map (\<lambda>p. - snd p) (result model fdf w ds q))"
    by (simp add: result_def sorted_reverse_def)
  then show ?thesis by (simp add: sorted_map)
qed

lemma stable_result:
  "filter (\<lambda>p. snd p = s) (result model fdf w ds q)
     = filter (\<lambda>p. snd p = s) (docs_with_scores model fdf w ds q)"
proof -
  have "filter (\<lambda>p. - snd p = - s) (sort_key (\<lambda>p. - snd p) (docs_with_scores model fdf w ds q))
          = filter (\<lambda>p. - snd p = - s) (docs_with_scores model fdf w ds q)"
    by (rule sort_key_stable)
  then show ?thesis by (simp add: result_def sorted_reverse_def)
qed

lemma result_pairs:
  "p \<in> set (result model fdf w ds q) \<Longrightarrow>
     fst p \<in> set ds \<and>
     snd p = (1 - w) * model q (page_content (fst p)) + w * get_document_feedback_score fdf (fst p)"
  by (auto simp: set_result docs_with_scores_map)

lemma set_slice_to: "set (slice_to n xs) \<subseteq> set xs"
  by (auto simp: slice_to_def dest: in_set_takeD)

lemma mset_slice_to: "mset (slice_to n xs) \<subseteq># mset xs"
proof -
  have "mset (take m xs) \<subseteq># mset xs" for m
  proof -
    have "mset xs = mset (take m xs) + mset (drop m xs)"
      by (simp flip: mset_append)
    then show ?thesis by simp
  qed
  then show ?thesis by (simp add: slice_to_def)
qed



text \<open>
  The comprehension of lines 92-102 maps each pair of the slice to the document with its
  three added keys; the names \<^verbatim>\<open>score\<close> and \<^verbatim>\<open>cross_encoder_score\<close> hold the same number.
\<close>

lemma compress_documents_map:
  "compress_documents model top_n fdf w ds q =
     map (\<lambda>(doc, s). doc\<lparr>metadata := (metadata doc)
                  (''relevance_score'' \<mapsto> MNum s, ''cross_encoder_score'' \<mapsto> MNum s,
                   ''feedback_score'' \<mapsto> MNum (get_document_feedback_score fdf doc))\<rparr>)
         (slice_to top_n (result model fdf w ds q))"
  by (simp add: compress_documents_def zip_same_conv_map comp_def case_prod_unfold)

lemma cross_encoder_score_is_relevance_score:
  "map (\<lambda>d. metadata d ''cross_encoder_score'') (compress_documents model top_n fdf w ds q)
     = map (\<lambda>d. metadata d ''relevance_score'') (compress_documents model top_n fdf w ds q)"
  by (simp add: compress_documents_map comp_def case_prod_unfold)

lemma feedback_score_of_output:
  "map (\<lambda>d. metadata d ''feedback_score'') (compress_documents model top_n fdf w ds q)
     = map (\<lambda>d. Some (MNum (get_document_feedback_score fdf d)))
         (compress_documents model top_n fdf w ds q)"
  by (simp add: compress_documents_map comp_def case_prod_unfold feedback_score_annotated)

lemma relevance_of_output:
  "map (\<lambda>d. metadata d ''relevance_score'') (compress_documents model top_n fdf w ds q)
     = map (\<lambda>d. Some (MNum ((1 - w) * model q (page_content d)
                               + w * get_document_feedback_score fdf d)))
         (compress_documents model top_n fdf w ds q)"
proof -
  have "\<forall>p \<in> set (slice_to top_n (result model fdf w ds q)).
          snd p = (1 - w) * model q (page_content (fst p))
                    + w * get_document_feedback_score fdf (fst p)"
    using result_pairs [of _ model fdf w ds q] set_slice_to [of top_n "result model fdf w ds q"]
    by blast
  then show ?thesis
    by (simp add: compress_documents_map comp_def case_prod_unfold feedback_score_annotated)
qed

lemma relevance_of_slice:
  "map (\<lambda>d. metadata d ''relevance_score'') (compress_documents model top_n fdf w ds q)
     = map (\<lambda>p. Some (MNum (snd p))) (slice_to top_n (result model fdf w ds q))"
  by (simp add: compress_documents_map comp_def case_prod_unfold)

lemma content_of_output:
  "map page_content (compress_documents model top_n fdf w ds q)
     = map (\<lambda>p. page_content (fst p)) (slice_to top_n (result model fdf w ds q))"
  by (simp add: compress_documents_map comp_def case_prod_unfold)

lemma metadata_of_output:
  "k \<notin> {''relevance_score'', ''cross_encoder_score'', ''feedback_score''} \<Longrightarrow>
   map (\<lambda>d. metadata d k) (compress_documents model top_n fdf w ds q)
     = map (\<lambda>p. metadata (fst p) k) (slice_to top_n (result model fdf w ds q))"
  by (simp add: compress_documents_map comp_def case_prod_unfold)

lemma sources_of_output:
  "mset (map fst (slice_to top_n (result model fdf w ds q))) \<subseteq># mset ds"
proof -
  have "mset (map fst (slice_to top_n (result model fdf w ds q)))
          \<subseteq># mset (map fst (result model fdf w ds q))"
    using mset_slice_to [of top_n "result model fdf w ds q"]
    by (simp add: image_mset_subseteq_mono)
  also have "mset (map fst (result model fdf w ds q)) = mset ds"
    using mset_result [of model fdf w ds q] map_fst_docs_with_scores [of model fdf w ds q]
    by (metis mset_map)
  finally show ?thesis .
qed


lemma compress_documents_Nil: "compress_documents model top_n fdf w [] q = []"
  by (simp add: compress_documents_def result_def sorted_reverse_def docs_with_scores_def
        model_score_def slice_to_def)

text \<open>The three documents of the small example, as ranked and as returned.\<close>

lemma small_result:
  "map (\<lambda>p. (page_content (fst p), snd p))
     (result unit_model (Some small_table) (1/2) [doc_z, doc_x, doc_y] ''q'')
   = [(''x'', 3/4), (''z'', 1/4), (''y'', 1/4)]"
  by (simp add: result_def sorted_reverse_def docs_with_scores_def model_score_def unit_model_def
        doc_x_def doc_y_def doc_z_def small_table_def get_document_feedback_score_def)

section \<open>The claims about scoring, ranking and truncation\<close>

subsection \<open>Fusion\<close>

text \<open>
  Claim C8. Lexical fusion returns \<open>alpha * r + beta * f\<close>, with \<open>alpha = 0.7\<close> and
  \<open>beta = 0.3\<close> when the weights are left out, and this is the score of every row that
  \<^verbatim>\<open>rerank_documents_with_feedback\<close> computes (a row without a rating has no score).
  Semantic fusion gives every document the combined score
  \<open>(1 - feedback_weight) * cross_encoder_score + feedback_weight * feedback_score\<close>, and this
  is the \<^verbatim>\<open>relevance_score\<close> of every returned document.
\<close>

theorem fusion_formula:
  "compute_relevance_score r f None None = 0.7 * r + 0.3 * f
   \<and> compute_relevance_score r f (Some alpha) (Some beta) = alpha * r + beta * f
   \<and> (case relevance_frame bm25 query documents combined_df of
         Inl e \<Rightarrow> True
       | Inr rows \<Rightarrow>
           list_all (\<lambda>row. sr_relevance_score row
                        = map_option (\<lambda>x. 0.7 * sr_bm25_score row + 0.3 * real_of_int x)
                            (sr_rating row)) rows)
   \<and> map snd (docs_with_scores model fdf w ds q)
       = map (\<lambda>d. (1 - w) * model q (page_content d) + w * get_document_feedback_score fdf d) ds
   \<and> map (\<lambda>d. metadata d ''relevance_score'') (compress_documents model top_n fdf w ds q)
       = map (\<lambda>d. Some (MNum ((1 - w) * model q (page_content d)
                                 + w * get_document_feedback_score fdf d)))
           (compress_documents model top_n fdf w ds q)"
proof -
  have "compute_relevance_score r f None None = 0.7 * r + 0.3 * f"
    by (simp add: compute_relevance_score_def)
  moreover have "compute_relevance_score r f (Some alpha) (Some beta) = alpha * r + beta * f"
    by (simp add: compute_relevance_score_def)
  moreover have "case relevance_frame bm25 query documents combined_df of
         Inl e \<Rightarrow> True
       | Inr rows \<Rightarrow>
           list_all (\<lambda>row. sr_relevance_score row
                        = map_option (\<lambda>x. 0.7 * sr_bm25_score row + 0.3 * real_of_int x)
                            (sr_rating row)) rows"
    using relevance_frame_rows [of bm25 query documents combined_df]
    by (cases "relevance_frame bm25 query documents combined_df") simp_all
  moreover have "map snd (docs_with_scores model fdf w ds q)
       = map (\<lambda>d. (1 - w) * model q (page_content d) + w * get_document_feedback_score fdf d) ds"
    by (simp add: docs_with_scores_map comp_def)
  ultimately show ?thesis
    using relevance_of_output [of model top_n fdf w ds q] by blast
qed

text \<open>
  Claim C8 at concrete inputs: a BM25 score 2 with the rating 1 fuses to 1.7, in
  \<^verbatim>\<open>compute_relevance_score\<close> and in the frame of the lexical path, and the three documents
  of the small example get the combined scores 1/4, 3/4 and 1/4.
\<close>

theorem fusion_formula_witness:
  "compute_relevance_score 2 1 None None = 17 / 10
   \<and> relevance_frame count_bm25 ''baz'' [''foo bar'', ''foo baz baz'']
         [(''foo bar'', 0), (''foo baz baz'', 1)]
       = Inr [\<lparr>sr_document = ''foo bar'', sr_bm25_score = 0, sr_document_id = Some ''foo bar'',
               sr_rating = Some 0, sr_relevance_score = Some 0\<rparr>,
              \<lparr>sr_document = ''foo baz baz'', sr_bm25_score = 2,
               sr_document_id = Some ''foo baz baz'', sr_rating = Some 1,
               sr_relevance_score = Some (17 / 10)\<rparr>]
   \<and> map snd (docs_with_scores unit_model (Some small_table) (1 / 2) [doc_z, doc_x, doc_y] ''q'')
       = [1 / 4, 3 / 4, 1 / 4]"
proof -
  have frame: "relevance_frame count_bm25 ''baz'' [''foo bar'', ''foo baz baz'']
         [(''foo bar'', 0), (''foo baz baz'', 1)]
       = Inr [\<lparr>sr_document = ''foo bar'', sr_bm25_score = 0, sr_document_id = Some ''foo bar'',
               sr_rating = Some 0, sr_relevance_score = Some 0\<rparr>,
              \<lparr>sr_document = ''foo baz baz'', sr_bm25_score = 2,
               sr_document_id = Some ''foo baz baz'', sr_rating = Some 1,
               sr_relevance_score = Some (17 / 10)\<rparr>]"
    by (simp add: relevance_frame_def retrieve_with_bm25_def count_bm25_def str_split_ws_def
          isspace_def merge_left_def compute_relevance_score_def)
  have scores: "map (\<lambda>d. (1 - 1 / 2) * unit_model ''q'' (page_content d)
                        + 1 / 2 * get_document_feedback_score (Some small_table) d)
                  [doc_z, doc_x, doc_y] = [1 / 4, 3 / 4, 1 / 4]"
    by (simp add: unit_model_def doc_x_def doc_y_def doc_z_def small_table_def
          get_document_feedback_score_def)
  show ?thesis
    using fusion_formula [where r = 2 and f = 1 and model = unit_model
        and fdf = "Some small_table" and w = "1 / 2" and ds = "[doc_z, doc_x, doc_y]" and q = "''q''"]
      frame scores
    by simp
qed

subsection \<open>Empty candidate sequence\<close>

text \<open>
  Claim C6. Reranking an empty candidate sequence is claimed to return an empty result
  without an error in both paths. The semantic path does. The lexical path raises: either
  the BM25 collaborator does on the empty corpus (\<^verbatim>\<open>BM25Okapi\<close> divides by the number of
  documents), or it returns and the frame built from no record has no column, so that the
  merge on its column \<^verbatim>\<open>document\<close> raises \<^verbatim>\<open>KeyError\<close>. No frame is a result of
  \<^verbatim>\<open>main_reranker\<close> on an empty file listing.
\<close>

theorem empty_candidates:
  "rerank_documents_with_feedback bm25 query [] feedback combined_df res
     = (res = Inl (case bm25 [] (str_split_ws query) of
                     Inl e \<Rightarrow> e
                   | Inr scores \<Rightarrow> KeyError ''document''))
   \<and> \<not> main_reranker bm25 feedback_df [] query (Inr sorted_df)
   \<and> compress_documents model top_n fdf w [] q = []"
proof -
  have 1: "rerank_documents_with_feedback bm25 query [] feedback combined_df res
     = (res = Inl (case bm25 [] (str_split_ws query) of
                     Inl e \<Rightarrow> e
                   | Inr scores \<Rightarrow> KeyError ''document''))" for feedback combined_df res
    by (simp add: rerank_documents_with_feedback_def relevance_frame_Nil)
  have 2: "\<not> main_reranker bm25 feedback_df [] query (Inr sorted_df)"
    by (cases "combiner feedback_df []") (simp_all add: main_reranker_def 1)
  from 1 2 compress_documents_Nil [of model top_n fdf w q] show ?thesis by blast
qed

subsection \<open>Scores attached to the returned documents\<close>

text \<open>
  Claim C3. Every returned document is claimed to carry the model's score under
  \<^verbatim>\<open>cross_encoder_score\<close>. The comprehension takes \<^verbatim>\<open>cross_encoder_score\<close> from the second
  component of a pair of \<^verbatim>\<open>result\<close>, which is the combined score: for one document that
  the model scores 1, with no feedback table and weight 1/2, the metadata hold
  \<^verbatim>\<open>cross_encoder_score\<close> = 3/4 (the combined score) and not 1. The other two keys are as
  claimed (\<open>cross_encoder_score_is_relevance_score\<close>, \<open>feedback_score_of_output\<close> and
  \<open>relevance_of_output\<close> hold for every input).
\<close>

theorem cross_encoder_score_example:
  "model_score unit_model [(''q'', page_content doc_x)] = [1]
   \<and> map (\<lambda>d. (metadata d ''relevance_score'', metadata d ''cross_encoder_score'',
                metadata d ''feedback_score''))
       (compress_documents unit_model 3 None (1 / 2) [doc_x] ''q'')
     = [(Some (MNum (3 / 4)), Some (MNum (3 / 4)), Some (MNum (1 / 2)))]"
  by (simp add: compress_documents_def result_def sorted_reverse_def docs_with_scores_def
        model_score_def slice_to_def get_document_feedback_score_def unit_model_def doc_x_def)

subsection \<open>Truncation to the first \<open>top_n\<close>\<close>



subsection \<open>What the annotation leaves unchanged\<close>

text \<open>
  Claim C10. \<^verbatim>\<open>compress_documents\<close> assigns to no input document: it builds each
  returned document with \<^verbatim>\<open>doc.copy\<close> around a new dictionary, so the embedding is a pure
  function of the inputs. The returned documents correspond, position by position, to the
  first components of the slice of \<^verbatim>\<open>result\<close>, which are input documents (each at most as
  often as it was supplied): the content is the same, and so is the value (or the absence)
  of every metadata key other than \<^verbatim>\<open>relevance_score\<close>, \<^verbatim>\<open>cross_encoder_score\<close> and
  \<^verbatim>\<open>feedback_score\<close>, which every returned document has.
\<close>

theorem annotation_frame:
  "mset (map fst (slice_to top_n (result model fdf w ds q))) \<subseteq># mset ds
   \<and> map page_content (compress_documents model top_n fdf w ds q)
       = map (\<lambda>p. page_content (fst p)) (slice_to top_n (result model fdf w ds q))
   \<and> (k \<notin> {''relevance_score'', ''cross_encoder_score'', ''feedback_score''} \<longrightarrow>
        map (\<lambda>d. metadata d k) (compress_documents model top_n fdf w ds q)
          = map (\<lambda>p. metadata (fst p) k) (slice_to top_n (result model fdf w ds q)))
   \<and> list_all (\<lambda>d. metadata d ''relevance_score'' \<noteq> None
                    \<and> metadata d ''cross_encoder_score'' \<noteq> None
                    \<and> metadata d ''feedback_score'' \<noteq> None)
        (compress_documents model top_n fdf w ds q)"
proof -
  have "list_all (\<lambda>d. metadata d ''relevance_score'' \<noteq> None
                    \<and> metadata d ''cross_encoder_score'' \<noteq> None
                    \<and> metadata d ''feedback_score'' \<noteq> None)
        (compress_documents model top_n fdf w ds q)"
    by (simp add: compress_documents_map list_all_iff case_prod_unfold)
  with sources_of_output [of top_n model fdf w ds q]
    content_of_output [of model top_n fdf w ds q]
    metadata_of_output [of k model top_n fdf w ds q]
  show ?thesis by blast
qed

text \<open>
  Claim C10 on the three documents of the small example, for the metadata key
  \<^verbatim>\<open>page\<close>, which only the document \<open>y\<close> has: it is returned last, with the key and
  its value.
\<close>

theorem annotation_frame_witness:
  "''page'' \<notin> {''relevance_score'', ''cross_encoder_score'', ''feedback_score''}
   \<and> map (\<lambda>p. page_content (fst p))
         (slice_to 3 (result unit_model (Some small_table) (1 / 2) [doc_z, doc_x, doc_y] ''q''))
       = [''x'', ''z'', ''y'']
   \<and> map page_content
         (compress_documents unit_model 3 (Some small_table) (1 / 2) [doc_z, doc_x, doc_y] ''q'')
       = [''x'', ''z'', ''y'']
   \<and> map (\<lambda>d. metadata d ''page'')
         (compress_documents unit_model 3 (Some small_table) (1 / 2) [doc_z, doc_x, doc_y] ''q'')
       = [None, None, Some (MNum 7)]"
proof -
  have k: "''page'' \<notin> {''relevance_score'', ''cross_encoder_score'', ''feedback_score''}"
    by simp
  have ranked: "map (\<lambda>p. (page_content (fst p), metadata (fst p) ''page''))
         (slice_to 3 (result unit_model (Some small_table) (1 / 2) [doc_z, doc_x, doc_y] ''q''))
       = [(''x'', None), (''z'', None), (''y'', Some (MNum 7))]"
    by (simp add: slice_to_def result_def sorted_reverse_def docs_with_scores_def model_score_def
          unit_model_def doc_x_def doc_y_def doc_z_def small_table_def
          get_document_feedback_score_def)
  have c: "map (\<lambda>p. page_content (fst p))
         (slice_to 3 (result unit_model (Some small_table) (1 / 2) [doc_z, doc_x, doc_y] ''q''))
       = [''x'', ''z'', ''y'']"
    using arg_cong [OF ranked, of "map fst"] by (simp add: comp_def)
  have m: "map (\<lambda>p. metadata (fst p) ''page'')
         (slice_to 3 (result unit_model (Some small_table) (1 / 2) [doc_z, doc_x, doc_y] ''q''))
       = [None, None, Some (MNum 7)]"
    using arg_cong [OF ranked, of "map snd"] by (simp add: comp_def)
  show ?thesis
    using annotation_frame [where k = "''page''" and top_n = 3 and model = unit_model
        and fdf = "Some small_table" and w = "1 / 2" and ds = "[doc_z, doc_x, doc_y]" and q = "''q''"]
      k c m
    by simp
qed

subsection \<open>Order of the ranked sequence\<close>

text \<open>
  Claim C4. Both paths are claimed to return the candidates in descending order of the
  combined score with candidates of equal score in their input order. The lexical path
  sorts with \<^verbatim>\<open>sort_values\<close> and its default \<^verbatim>\<open>kind='quicksort'\<close>, which does not promise
  the order of equal scores. For the eighteen candidates of \<open>tie_documents\<close>, all of
  score 0, the frame that lists the third to the seventeenth candidate in reverse order is
  a result of \<^verbatim>\<open>main_reranker\<close>. (The reordering is of the kind that numpy's introsort
  performs: with more than sixteen rows it partitions, and its partition exchanges rows of
  equal key.)
\<close>

theorem lexical_ties_counterexample:
  "main_reranker tie_bm25 tie_feedback tie_documents ''q'' (Inr (map tie_row tie_sorted))
   \<and> map sr_relevance_score (map tie_row tie_sorted) = replicate 18 (Some 0)
   \<and> map sr_document (map tie_row tie_sorted) = tie_sorted
   \<and> tie_sorted \<noteq> tie_documents"
proof -
  have "main_reranker tie_bm25 tie_feedback tie_documents ''q'' (Inr (map tie_row tie_sorted))"
    by (simp add: main_reranker_def tie_combiner rerank_documents_with_feedback_def tie_frame
          tie_sort)
  moreover have "map sr_relevance_score (map tie_row tie_sorted) = replicate 18 (Some 0)"
    by (simp add: tie_sorted_def tie_row_def numeral_eq_Suc)
  moreover have "map sr_document (map tie_row tie_sorted) = tie_sorted"
    by (simp add: tie_row_def comp_def)
  moreover have "tie_sorted \<noteq> tie_documents"
    by (simp add: tie_sorted_def tie_documents_def)
  ultimately show ?thesis by blast
qed

text \<open>
  Claim C4, as amended. In the semantic path \<^verbatim>\<open>result\<close> is in descending order of the
  combined score, and the pairs of any one score are in \<^verbatim>\<open>result\<close> in the order of the
  input documents (Python's \<^verbatim>\<open>sorted\<close> is stable); the returned documents are the slice of
  \<^verbatim>\<open>result\<close>, in that order. In the lexical path every sorted frame has the rows of the
  scored frame, those with a score first and in descending order of the score; in
  \<^verbatim>\<open>main_reranker\<close> every row has a score. The order of rows of equal score is left to
  \<^verbatim>\<open>sort_values\<close>.
\<close>

theorem ranking_order:
  "sorted_wrt (\<lambda>a b. snd b \<le> snd a) (result model fdf w ds q)
   \<and> map fst (docs_with_scores model fdf w ds q) = ds
   \<and> (\<forall>s. filter (\<lambda>p. snd p = s) (result model fdf w ds q)
            = filter (\<lambda>p. snd p = s) (docs_with_scores model fdf w ds q))
   \<and> map (\<lambda>d. metadata d ''relevance_score'') (compress_documents model top_n fdf w ds q)
       = map (\<lambda>p. Some (MNum (snd p))) (slice_to top_n (result model fdf w ds q))
   \<and> map page_content (compress_documents model top_n fdf w ds q)
       = map (\<lambda>p. page_content (fst p)) (slice_to top_n (result model fdf w ds q))
   \<and> (rerank_documents_with_feedback bm query documents feedback combined_df (Inr sorted_df) \<longrightarrow>
        sorted_wrt score_before sorted_df
        \<and> (\<exists>df. relevance_frame bm query documents combined_df = Inr df
                  \<and> mset sorted_df = mset df))
   \<and> (main_reranker bm feedback documents query (Inr ranked_df) \<longrightarrow>
        (\<exists>scores. map sr_relevance_score ranked_df = map Some scores
                    \<and> sorted_wrt (\<lambda>x y. y \<le> x) scores))"
  using sorted_result [of model fdf w ds q] map_fst_docs_with_scores [of model fdf w ds q]
    stable_result [of _ model fdf w ds q] relevance_of_slice [of model top_n fdf w ds q]
    content_of_output [of model top_n fdf w ds q]
    rerank_sorted [of bm query documents feedback combined_df sorted_df]
    main_reranker_sorted [of bm feedback documents query ranked_df]
  by blast

text \<open>
  Claim C4, the amended statement at concrete inputs. Lexical path: of the candidates
  \<^verbatim>\<open>foo bar\<close> and \<^verbatim>\<open>foo baz baz\<close> the second, which has the query term \<^verbatim>\<open>baz\<close>, is
  ranked first. Semantic path: the document \<open>x\<close> is ranked first, and \<open>z\<close> and \<open>y\<close>,
  of equal combined score, follow in their input order.
\<close>

theorem ranking_order_witness:
  "rerank_documents_with_feedback count_bm25 ''baz'' baz_documents tie_feedback
      [(''foo bar'', 0), (''foo baz baz'', 0)] (Inr baz_ranked)
   \<and> main_reranker count_bm25 tie_feedback baz_documents ''baz'' (Inr baz_ranked)
   \<and> map sr_relevance_score baz_ranked = [Some (7 / 5), Some 0]
   \<and> sorted_wrt score_before baz_ranked
   \<and> map (\<lambda>p. (page_content (fst p), snd p))
         (result unit_model (Some small_table) (1 / 2) [doc_z, doc_x, doc_y] ''q'')
       = [(''x'', 3 / 4), (''z'', 1 / 4), (''y'', 1 / 4)]
   \<and> sorted_wrt (\<lambda>a b. snd b \<le> snd a)
        (result unit_model (Some small_table) (1 / 2) [doc_z, doc_x, doc_y] ''q'')"
proof -
  have frame: "relevance_frame count_bm25 ''baz'' baz_documents
         [(''foo bar'', 0), (''foo baz baz'', 0)]
       = Inr (rev baz_ranked)"
    by (simp add: relevance_frame_def retrieve_with_bm25_def count_bm25_def str_split_ws_def
          isspace_def merge_left_def compute_relevance_score_def baz_documents_def baz_ranked_def)
  have sorted_frame:
    "rerank_documents_with_feedback count_bm25 ''baz'' baz_documents tie_feedback
       [(''foo bar'', 0), (''foo baz baz'', 0)] (Inr baz_ranked)"
    by (simp add: rerank_documents_with_feedback_def frame sort_values_desc_def)
       (simp add: baz_ranked_def score_before_def)
  have combined: "combiner tie_feedback baz_documents = Inr [(''foo bar'', 0), (''foo baz baz'', 0)]"
    by (simp add: combiner_def tie_feedback_def baz_documents_def parse_document_ids_def
          str_strip_def dquote_def add_rating_def merge_left_def)
  have main: "main_reranker count_bm25 tie_feedback baz_documents ''baz'' (Inr baz_ranked)"
    by (simp add: main_reranker_def combined sorted_frame)
  have scores: "map sr_relevance_score baz_ranked = [Some (7 / 5), Some 0]"
    by (simp add: baz_ranked_def)
  show ?thesis
    using ranking_order [where model = unit_model and fdf = "Some small_table" and w = "1 / 2"
        and ds = "[doc_z, doc_x, doc_y]" and q = "''q''" and top_n = 2
        and bm = count_bm25 and query = "''baz''" and documents = baz_documents
        and feedback = tie_feedback
        and combined_df = "[(''foo bar'', 0), (''foo baz baz'', 0)]"
        and sorted_df = baz_ranked and ranked_df = baz_ranked]
      sorted_frame main scores small_result
    by blast
qed

end
